theory Spec2Isabelle
  imports Complex_Main
begin

section \<open>Python values: exceptions, outcomes, strings\<close>

text \<open>
  The model follows \<^verbatim>\<open>python/BioSimSpace/Process/_somd.py\<close>. A method that mutates
  the object or the operating system takes the object (\<open>self\<close>) and the world and returns
  its outcome together with the object and the world as they are when it returns or
  raises: an exception does not undo what was done before it.
\<close>

datatype exn =
    ValueError string
  | OSError string
  | IOError string
  | IncompatibleError string
  | MissingSoftwareError string
  | AttributeError string
  | IndexError string
  | ZeroDivisionError string
  | OverflowError string
  | SireError string

datatype 'a outcome = Return 'a | Raise exn

text \<open>What an accessor hands back: Python's \<open>None\<close>, a whole series, or one sample.\<close>

datatype 'a reading = Absent | Series "'a list" | Sample 'a

text \<open>The \<open>block\<close> argument of the accessors: \<open>True\<close>, \<open>False\<close> or \<open>"AUTO"\<close>.\<close>

datatype block = BTrue | BFalse | AUTO

text \<open>What \<open>start\<close> returns: nothing on its early returns, \<open>self\<close> at its end.\<close>

datatype started = ReturnedNone | ReturnedSelf

definition digit_char :: "nat \<Rightarrow> char" where
  "digit_char n = ''0123456789'' ! n"

fun digits :: "nat \<Rightarrow> string" where
  "digits n = (if n < 10 then [digit_char n] else digits (n div 10) @ [digit_char (n mod 10)])"

declare digits.simps [simp del]

text \<open>\<open>"%d" % i\<close> for a Python int.\<close>

definition fmt_d :: "int \<Rightarrow> string" where
  "fmt_d i = (if i < 0 then CHR ''-'' # digits (nat (- i)) else digits (nat i))"

text \<open>\<open>sep.join(xs)\<close>.\<close>

fun join :: "string \<Rightarrow> string list \<Rightarrow> string" where
  "join sep [] = []"
| "join sep [x] = x"
| "join sep (x # y # ys) = x @ sep @ join sep (y # ys)"

text \<open>\<open>str.upper\<close> on ASCII letters, and \<open>s.replace(" ", "")\<close>.\<close>

definition upper_char :: "char \<Rightarrow> char" where
  "upper_char c =
     (case map_of (zip ''abcdefghijklmnopqrstuvwxyz'' ''ABCDEFGHIJKLMNOPQRSTUVWXYZ'') c of
        Some u \<Rightarrow> u
      | None \<Rightarrow> c)"

definition upper :: "string \<Rightarrow> string" where
  "upper s = map upper_char s"

definition strip_spaces :: "string \<Rightarrow> string" where
  "strip_spaces s = filter (\<lambda>c. c \<noteq> CHR '' '') s"

text \<open>
  Whitespace as \<open>str.rstrip()\<close> and \<open>str.split()\<close> see it (the ASCII cases): space,
  tab, line feed, vertical tab, form feed, carriage return.
\<close>

definition is_space :: "char \<Rightarrow> bool" where
  "is_space c = (c \<in> set [CHR '' '', CHR 0x09, CHR 0x0A, CHR 0x0B, CHR 0x0C, CHR 0x0D])"

definition rstrip :: "string \<Rightarrow> string" where
  "rstrip s = rev (dropWhile is_space (rev s))"

text \<open>
  \<open>s.split()\<close>: the maximal runs of non-whitespace characters, in order. The second
  argument is the token being read.
\<close>

fun split_from :: "string \<Rightarrow> string \<Rightarrow> string list" where
  "split_from [] tok = (if tok = [] then [] else [tok])"
| "split_from (c # cs) tok =
     (if is_space c then (if tok = [] then split_from cs [] else tok # split_from cs [])
      else split_from cs (tok @ [c]))"

definition split_ws :: "string \<Rightarrow> string list" where
  "split_ws s = split_from s []"

text \<open>
  The lines a file opened in text mode yields when iterated. A line ends at a line feed,
  at a carriage return, or at a carriage return followed by a line feed, and each of these
  endings is handed over as a line feed (Python's universal newlines); the last line may
  have no ending.
\<close>

fun split_lines :: "string \<Rightarrow> string list" where
  "split_lines [] = []"
| "split_lines [c] = (if c = CHR 0x0A \<or> c = CHR 0x0D then [[CHR 0x0A]] else [[c]])"
| "split_lines (c # d # cs) =
     (if c = CHR 0x0A then [CHR 0x0A] # split_lines (d # cs)
      else if c = CHR 0x0D then
        (if d = CHR 0x0A then [CHR 0x0A] # split_lines cs
         else [CHR 0x0A] # split_lines (d # cs))
      else (case split_lines (d # cs) of
              [] \<Rightarrow> [[c]]
            | l # ls \<Rightarrow> (c # l) # ls))"

text \<open>\<open>os.path.basename\<close>: what follows the last slash.\<close>

definition basename :: "string \<Rightarrow> string" where
  "basename p = rev (takeWhile (\<lambda>c. c \<noteq> CHR ''/'') (rev p))"

section \<open>Python floats\<close>

text \<open>
  A Python float is an IEEE 754 double. A finite double is given by its exact rational
  value; beside the finite ones there are the two infinities and NaN (the sign of a zero
  is not kept). An arithmetic operation gives the double nearest to its exact result, a
  tie going to the even one: 53 significant bits, the smallest exponent that of the
  subnormal numbers, and infinity when the rounded value reaches \<open>2 ^ 1024\<close>.
\<close>

datatype pyfloat = Finite rat | PosInf | NegInf | NaN

function bitlength :: "int \<Rightarrow> int" where
  "bitlength n = (if n \<le> 0 then 0 else 1 + bitlength (n div 2))"
  by pat_completeness auto
termination
  by (relation "measure nat") auto

declare bitlength.simps [simp del]

definition pow2 :: "int \<Rightarrow> rat" where
  "pow2 e = (if 0 \<le> e then 2 ^ nat e else 1 / 2 ^ nat (- e))"

text \<open>For a positive \<open>x\<close>, the exponent \<open>e\<close> with \<open>2 ^ e \<le> x < 2 ^ (e + 1)\<close>.\<close>

definition binade :: "rat \<Rightarrow> int" where
  "binade x =
     (case quotient_of x of (p, q) \<Rightarrow>
        (let e0 = bitlength p - bitlength q
         in if pow2 e0 \<le> x then e0 else e0 - 1))"

definition round_half_even :: "rat \<Rightarrow> int" where
  "round_half_even x =
     (let f = \<lfloor>x\<rfloor>; d = x - of_int f
      in if d < 1 / 2 then f else if 1 / 2 < d then f + 1 else if even f then f else f + 1)"

definition round_double :: "rat \<Rightarrow> pyfloat" where
  "round_double x =
     (if x = 0 then Finite 0
      else (let a = \<bar>x\<bar>;
                e = max (binade a) (- 1022);
                ulp = pow2 (e - 52);
                m = round_half_even (a / ulp)
            in if 1024 \<le> e \<or> (e = 1023 \<and> m = 2 ^ 53) then (if 0 < x then PosInf else NegInf)
               else Finite (if 0 < x then of_int m * ulp else - (of_int m * ulp))))"

text \<open>An exact result that is a double: rounding leaves it as it is.\<close>

definition unrounded :: "rat \<Rightarrow> bool" where
  "unrounded x = (round_double x = Finite x)"

text \<open>The float of a Python int, as an operation on floats takes an int operand.\<close>

definition float_of_int :: "int \<Rightarrow> pyfloat" where
  "float_of_int i = round_double (of_int i)"

definition fsgn :: "pyfloat \<Rightarrow> int" where
  "fsgn x =
     (case x of
        Finite a \<Rightarrow> (if 0 < a then 1 else if a < 0 then - 1 else 0)
      | PosInf \<Rightarrow> 1
      | NegInf \<Rightarrow> - 1
      | NaN \<Rightarrow> 0)"

definition inf_of_sign :: "int \<Rightarrow> pyfloat" where
  "inf_of_sign s = (if 0 < s then PosInf else NegInf)"

definition fmul :: "pyfloat \<Rightarrow> pyfloat \<Rightarrow> pyfloat" where
  "fmul x y =
     (case (x, y) of
        (Finite a, Finite b) \<Rightarrow> round_double (a * b)
      | _ \<Rightarrow>
          (if x = NaN \<or> y = NaN \<or> x = Finite 0 \<or> y = Finite 0 then NaN
           else inf_of_sign (fsgn x * fsgn y)))"

definition fadd :: "pyfloat \<Rightarrow> pyfloat \<Rightarrow> pyfloat" where
  "fadd x y =
     (case (x, y) of
        (Finite a, Finite b) \<Rightarrow> round_double (a + b)
      | _ \<Rightarrow>
          (if x = NaN \<or> y = NaN \<or> (x = PosInf \<and> y = NegInf) \<or> (x = NegInf \<and> y = PosInf) then NaN
           else if x = PosInf \<or> y = PosInf then PosInf
           else NegInf))"

text \<open>The quotient of two floats, the divisor not zero.\<close>

definition fdiv :: "pyfloat \<Rightarrow> pyfloat \<Rightarrow> pyfloat" where
  "fdiv x y =
     (case (x, y) of
        (Finite a, Finite b) \<Rightarrow> round_double (a / b)
      | (Finite a, _) \<Rightarrow> (if y = NaN then NaN else Finite 0)
      | (_, Finite b) \<Rightarrow> (if x = NaN then NaN else inf_of_sign (fsgn x * fsgn y))
      | _ \<Rightarrow> NaN)"

text \<open>Python's \<open>x / y\<close> on floats raises when the divisor is zero.\<close>

definition truediv :: "pyfloat \<Rightarrow> pyfloat \<Rightarrow> pyfloat outcome" where
  "truediv x y =
     (if y = Finite 0 then Raise (ZeroDivisionError ''float division by zero'')
      else Return (fdiv x y))"

text \<open>\<open>math.ceil\<close> of a float: an int, or the error Python raises for infinity and NaN.\<close>

definition math_ceil :: "pyfloat \<Rightarrow> int outcome" where
  "math_ceil x =
     (case x of
        Finite a \<Rightarrow> Return \<lceil>a\<rceil>
      | NaN \<Rightarrow> Raise (ValueError ''cannot convert float NaN to integer'')
      | _ \<Rightarrow> Raise (OverflowError ''cannot convert float infinity to integer''))"

section \<open>Quantities\<close>

text \<open>
  Modelled from the spec: \<^verbatim>\<open>BioSimSpace.Types\<close> is not among the sources. A time is a
  float magnitude with a unit. Its conversion to another unit multiplies or divides the
  magnitude by the ratio of the units; a time divided by a time is the quotient of the
  two magnitudes in femtoseconds (the spec's \<open>ceil(10000/2/100)\<close> for 10 picoseconds and
  2 femtoseconds); an int times a time multiplies the magnitude. Each of these is a float
  operation and rounds.
\<close>

datatype time_unit = Nanosecond | Picosecond | Femtosecond

datatype time = Time (magnitude: pyfloat) (unit: time_unit)

fun fs_per :: "time_unit \<Rightarrow> rat" where
  "fs_per Nanosecond = 1000000"
| "fs_per Picosecond = 1000"
| "fs_per Femtosecond = 1"

definition femtoseconds :: "time \<Rightarrow> time" where
  "femtoseconds t = Time (fmul (magnitude t) (Finite (fs_per (unit t)))) Femtosecond"

definition nanoseconds :: "time \<Rightarrow> time" where
  "nanoseconds t = Time (fdiv (magnitude (femtoseconds t)) (Finite 1000000)) Nanosecond"

definition time_scale :: "int \<Rightarrow> time \<Rightarrow> time" where
  "time_scale k t = Time (fmul (float_of_int k) (magnitude t)) (unit t)"

definition time_div :: "time \<Rightarrow> time \<Rightarrow> pyfloat outcome" where
  "time_div a b = truediv (magnitude (femtoseconds a)) (magnitude (femtoseconds b))"

text \<open>A temperature; \<open>kelvin().magnitude()\<close> is its magnitude in kelvin.\<close>

datatype temperature = Kelvin pyfloat | Celsius pyfloat

fun kelvin_magnitude :: "temperature \<Rightarrow> pyfloat" where
  "kelvin_magnitude (Kelvin k) = k"
| "kelvin_magnitude (Celsius c) = fadd c (round_double (27315 / 100))"

section \<open>Protocols, molecules, systems\<close>

text \<open>
  Modelled from the spec: \<^verbatim>\<open>BioSimSpace.Protocol\<close> is not among the sources. A protocol
  is a tagged variant carrying what \<^verbatim>\<open>_somd.py\<close> reads from it through its getters.
  \<open>OtherProtocol\<close> stands for an object of any other class, with its class name.
\<close>

datatype protocol =
    Minimisation int
      \<comment> \<open>\<open>getSteps\<close>\<close>
  | Equilibration time time temperature bool bool
      \<comment> \<open>\<open>getRunTime\<close>, \<open>getTimeStep\<close>, \<open>getStartTemperature\<close>, \<open>isConstantTemp\<close>, \<open>isRestrained\<close>\<close>
  | Production time time temperature string
      \<comment> \<open>\<open>getRunTime\<close>, \<open>getTimeStep\<close>, \<open>getTemperature\<close>, \<open>getEnsemble\<close>\<close>
  | FreeEnergy time time temperature string "pyfloat list" pyfloat
      \<comment> \<open>as \<open>Production\<close>, then \<open>getLambdaValues\<close>, \<open>getLambda\<close>\<close>
  | Custom "string list"
      \<comment> \<open>\<open>getConfig\<close>\<close>
  | OtherProtocol string

fun is_FreeEnergy :: "protocol \<Rightarrow> bool" where
  "is_FreeEnergy (FreeEnergy rt ts t e ls l) = True"
| "is_FreeEnergy p = False"

text \<open>
  What the code reads of a molecule: its number, the name of its residue at index 0,
  whether it is a water, whether it is perturbable.
\<close>

record molecule =
  number :: nat
  res0_name :: string
  is_water :: bool
  is_perturbable :: bool

record sire_system =
  molecules :: "molecule list"
  propertyKeys :: "string list"

text \<open>
  Modelled from the spec: \<^verbatim>\<open>BioSimSpace.Trajectory\<close> is not among the sources. A
  trajectory is "an ordered sequence of frames (system snapshots)"; \<open>nFrames\<close> is their
  number and \<open>getFrames\<close> gives them.
\<close>

type_synonym trajectory = "sire_system list"

section \<open>The world and the process object\<close>

text \<open>
  The world outside the object: regular files by absolute path, the directories, which
  paths can be opened for writing, the current directory, the Sire system objects by
  address (a reference is an address, so that a copy and its original are told apart),
  the offset that the tailing reader keeps for each file it has read (it keeps it in a
  file of its own beside the one it reads; here it is a table), which child processes
  run, the children spawned so far, and the clock.
\<close>

record world =
  files :: "string \<rightharpoonup> string"
  is_dir :: "string \<Rightarrow> bool"
  writable :: "string \<Rightarrow> bool"
  cwd :: string
  heap :: "sire_system list"
  offsets :: "string \<rightharpoonup> nat"
  running :: "nat \<Rightarrow> bool"
  spawned :: "(string \<times> string list \<times> string \<times> string) list"
  clock :: nat

text \<open>The fields of a \<open>Somd\<close> object (the leading underscore of each name dropped).\<close>

record somd =
  system :: nat
  protocol :: protocol
  name :: string
  work_dir :: string
  seed :: int
  is_seeded :: bool
  property_map :: "(string \<times> string) list"
  has_water :: bool
  is_blocked :: bool
  is_queued :: bool
  stdout_file :: string
  stderr_file :: string
  package_name :: string
  has_trajectory :: bool
  platform :: string
  exe :: string
  rst_file :: string
  top_file :: string
  config_file :: string
  pert_file :: string
  gradient_file :: string
  gradients :: "pyfloat list"
  input_files :: "string list"
  config :: "string list"
  args :: "(string \<times> string) list"
  process :: "nat option"
  command :: string
  timer :: "nat option"

text \<open>
  What the module calls and the sources do not hold: Python's float formatting and
  parsing, Sire's serialisers and binary directory, the perturbation writer of a
  molecule, the trajectory reader, and the base class's \<open>wait\<close> and \<open>_clear_output\<close>.
  They are parameters of the model. A serialiser or a constructor that raises gives
  \<open>None\<close>.
\<close>

record externals =
  fmt_2f :: "pyfloat \<Rightarrow> string"
  str_float :: "pyfloat \<Rightarrow> string"
  parse_float :: "string \<Rightarrow> pyfloat option"
  pert_text :: "molecule \<Rightarrow> (string \<times> string) list \<Rightarrow> string"
  lambda0_molecule :: "molecule \<Rightarrow> (string \<times> string) list \<Rightarrow> molecule"
  AmberRst7 :: "sire_system \<Rightarrow> (string \<times> string) list \<Rightarrow> string option"
  AmberPrm :: "sire_system \<Rightarrow> (string \<times> string) list \<Rightarrow> string option"
  getBinDir :: string
  Trajectory :: "somd \<Rightarrow> world \<Rightarrow> trajectory option"
  wait :: "somd \<times> world \<Rightarrow> somd \<times> world"
  base_clear_output :: "somd \<times> world \<Rightarrow> somd \<times> world"

section \<open>Files and directories\<close>

text \<open>A relative path is read from the current directory.\<close>

definition resolve :: "world \<Rightarrow> string \<Rightarrow> string" where
  "resolve w p = (if take 1 p = ''/'' then p else cwd w @ ''/'' @ p)"

definition isfile :: "world \<Rightarrow> string \<Rightarrow> bool" where
  "isfile w p = (files w (resolve w p) \<noteq> None)"

definition remove_file :: "string \<Rightarrow> world \<Rightarrow> world" where
  "remove_file p w = w\<lparr>files := (files w)(resolve w p := None)\<rparr>"

text \<open>Opening a file for writing and writing \<open>text\<close> to it; the open may fail.\<close>

definition write_file :: "string \<Rightarrow> string \<Rightarrow> world \<Rightarrow> unit outcome \<times> world" where
  "write_file p text w =
     (if writable w (resolve w p)
      then (Return (), w\<lparr>files := (files w)(resolve w p \<mapsto> text)\<rparr>)
      else (Raise (OSError p), w))"

definition chdir :: "string \<Rightarrow> world \<Rightarrow> unit outcome \<times> world" where
  "chdir d w =
     (if is_dir w (resolve w d) then (Return (), w\<lparr>cwd := resolve w d\<rparr>)
      else (Raise (OSError d), w))"

section \<open>Sire systems on the heap\<close>

text \<open>
  Modelled from the spec: the wrapper class \<^verbatim>\<open>BioSimSpace._SireWrappers.System\<close> is not
  among the sources. Its constructor, given a system, holds a copy of it ("First create a
  copy of the system", and the spec's "internal working copy distinct from the caller's
  original"): a new object at a fresh address with the same content.
\<close>

definition new_System :: "nat \<Rightarrow> world \<Rightarrow> nat \<times> world" where
  "new_System a w = (length (heap w), w\<lparr>heap := heap w @ [heap w ! a]\<rparr>)"

definition modify_system :: "nat \<Rightarrow> (sire_system \<Rightarrow> sire_system) \<Rightarrow> world \<Rightarrow> world" where
  "modify_system a f w = w\<lparr>heap := (heap w)[a := f (heap w ! a)]\<rparr>"

text \<open>
  What the code asks of a system: its perturbable molecules and their count, its waters,
  and Sire's \<open>remove\<close> by number, \<open>add\<close> (at the end) and \<open>molecule\<close> by number.
\<close>

definition getPerturbableMolecules :: "sire_system \<Rightarrow> molecule list" where
  "getPerturbableMolecules s = filter is_perturbable (molecules s)"

definition nPerturbableMolecules :: "sire_system \<Rightarrow> nat" where
  "nPerturbableMolecules s = length (getPerturbableMolecules s)"

definition getWaterMolecules :: "sire_system \<Rightarrow> molecule list" where
  "getWaterMolecules s = filter is_water (molecules s)"

definition sys_remove :: "nat \<Rightarrow> sire_system \<Rightarrow> sire_system" where
  "sys_remove n s = s\<lparr>molecules := filter (\<lambda>m. number m \<noteq> n) (molecules s)\<rparr>"

definition sys_add :: "molecule \<Rightarrow> sire_system \<Rightarrow> sire_system" where
  "sys_add m s = s\<lparr>molecules := molecules s @ [m]\<rparr>"

definition sys_molecule :: "sire_system \<Rightarrow> nat \<Rightarrow> molecule option" where
  "sys_molecule s n = find (\<lambda>m. number m = n) (molecules s)"

definition rename_res0 :: "string \<Rightarrow> molecule \<Rightarrow> molecule" where
  "rename_res0 n m = m\<lparr>res0_name := n\<rparr>"

section \<open>\<open>_setup\<close>\<close>

text \<open>
  The free energy branch of \<open>_setup\<close>: the count of perturbable molecules is checked
  first; only with exactly one is the perturbation file written and the molecule replaced
  in the working copy \<open>sys\<close>.
\<close>

definition setup_perturbable :: "externals \<Rightarrow> nat \<Rightarrow> somd \<Rightarrow> world \<Rightarrow> unit outcome \<times> somd \<times> world" where
  "setup_perturbable X sys self w =
     (if is_FreeEnergy (protocol self) then
        (if nPerturbableMolecules (heap w ! sys) = 1 then
           (case getPerturbableMolecules (heap w ! sys) of
              [] \<Rightarrow> (Raise (IndexError ''list index out of range''), self, w)
            | pert_mol # rest \<Rightarrow>
                (case write_file (pert_file self) (pert_text X pert_mol (property_map self)) w of
                   (Raise e, w1) \<Rightarrow> (Raise e, self, w1)
                 | (Return u, w1) \<Rightarrow>
                     (let m0 = lambda0_molecule X pert_mol (property_map self);
                          self1 = self\<lparr>input_files := input_files self @ [pert_file self]\<rparr>;
                          w2 = modify_system sys (sys_remove (number m0)) w1;
                          w3 = modify_system sys (sys_add m0) w2
                      in (Return (), self1, w3))))
         else (Raise (ValueError
                 ([CHR 0x27] @ ''BioSimSpace.Protocol.FreeEnergy' requires a single perturbable molecule. The system has ''
                    @ fmt_d (int (nPerturbableMolecules (heap w ! sys))))), self, w))
      else (Return (), self, w))"

text \<open>The loop over the waters: each is looked up by number, renamed, removed and added back.\<close>

fun relabel_waters :: "nat \<Rightarrow> molecule list \<Rightarrow> world \<Rightarrow> unit outcome \<times> world" where
  "relabel_waters sys [] w = (Return (), w)"
| "relabel_waters sys (mol # waters) w =
     (case sys_molecule (heap w ! sys) (number mol) of
        None \<Rightarrow> (Raise (SireError ''MissingMolecule''), w)
      | Some m \<Rightarrow>
          (let m1 = rename_res0 ''WAT'' m;
               w1 = modify_system sys (sys_remove (number m1)) w;
               w2 = modify_system sys (sys_add m1) w1
           in relabel_waters sys waters w2))"

text \<open>
  The two \<open>try\<close> blocks: whatever goes wrong in serialising or writing is raised as
  \<open>IOError\<close> with the message \<open>msg\<close>.
\<close>

definition write_serialised :: "string option \<Rightarrow> string \<Rightarrow> string \<Rightarrow> world \<Rightarrow> unit outcome \<times> world" where
  "write_serialised text file msg w =
     (case text of
        None \<Rightarrow> (Raise (IOError msg), w)
      | Some t \<Rightarrow>
          (case write_file file t w of
             (Raise e, w1) \<Rightarrow> (Raise (IOError msg), w1)
           | (Return u, w1) \<Rightarrow> (Return (), w1)))"

section \<open>\<open>_generate_config\<close>\<close>

text \<open>
  The number of cycles, 100 steps each: \<open>math.ceil((run_time / time_step) / 100)\<close>. The
  quotient of the two times is a float, its division by the int 100 is a float division,
  and the ceiling is taken of the float that results.
\<close>

definition ncycles :: "time \<Rightarrow> time \<Rightarrow> int outcome" where
  "ncycles run_time time_step =
     (case time_div run_time time_step of
        Raise e \<Rightarrow> Raise e
      | Return q \<Rightarrow>
          (case truediv q (float_of_int 100) of
             Raise e \<Rightarrow> Raise e
           | Return c \<Rightarrow> math_ceil c))"

definition addToConfig :: "string list \<Rightarrow> somd \<Rightarrow> somd" where
  "addToConfig ls self = self\<lparr>config := config self @ ls\<rparr>"

definition barostat_lines :: "string \<Rightarrow> bool \<Rightarrow> bool \<Rightarrow> string list" where
  "barostat_lines ensemble water box =
     (if ensemble = ''NVT'' then [''barostat = False'']
      else if water \<and> box then [''barostat = True'', ''pressure = 1 atm'']
      else [''barostat = False''])"

definition dielectric_line :: "bool \<Rightarrow> string" where
  "dielectric_line water =
     (if water then ''reaction field dielectric = 78.3'' else ''reaction field dielectric = 82.0'')"

definition cutoff_line :: "bool \<Rightarrow> bool \<Rightarrow> string" where
  "cutoff_line box water =
     (if \<not> box \<or> \<not> water then ''cutoff type = cutoffnonperiodic''
      else ''cutoff type = cutoffperiodic'')"

definition seed_lines :: "somd \<Rightarrow> string list" where
  "seed_lines self = (if is_seeded self then [''random seed = '' @ fmt_d (seed self)] else [])"

definition minimisation_lines :: "somd \<Rightarrow> bool \<Rightarrow> int \<Rightarrow> string list" where
  "minimisation_lines self box steps =
     [''minimise = True'',
      ''minimise maximum iterations = '' @ fmt_d steps,
      ''minimise tolerance = 1'',
      ''ncycles = 1'',
      ''nmoves = 1'',
      ''save coordinates = True'',
      cutoff_line box (has_water self),
      ''cutoff distance = 10 angstrom'']"

definition equilibration_lines :: "externals \<Rightarrow> somd \<Rightarrow> bool \<Rightarrow> int \<Rightarrow> time \<Rightarrow> temperature \<Rightarrow> string list" where
  "equilibration_lines X self box n time_step temp =
     [''ncycles = '' @ fmt_d n,
      ''nmoves = 100'',
      ''save coordinates = True'',
      ''buffered coordinates frequency = 100'',
      ''timestep = '' @ fmt_2f X (magnitude (femtoseconds time_step)) @ '' femtosecond'',
      ''thermostat = True'',
      ''temperature = '' @ fmt_2f X (kelvin_magnitude temp) @ '' kelvin'',
      ''barostat = False'',
      dielectric_line (has_water self),
      cutoff_line box (has_water self),
      ''cutoff distance = 10 angstrom'']
     @ seed_lines self"

definition production_lines :: "externals \<Rightarrow> somd \<Rightarrow> bool \<Rightarrow> int \<Rightarrow> time \<Rightarrow> temperature \<Rightarrow> string \<Rightarrow> string list" where
  "production_lines X self box n time_step temp ensemble =
     [''ncycles = '' @ fmt_d n,
      ''nmoves = 100'',
      ''save coordinates = True'',
      ''buffered coordinates frequency = 100'',
      ''timestep = '' @ fmt_2f X (magnitude (femtoseconds time_step)) @ '' femtosecond'',
      ''thermostat = True'',
      ''temperature = '' @ fmt_2f X (kelvin_magnitude temp) @ '' kelvin'']
     @ barostat_lines ensemble (has_water self) box
     @ [dielectric_line (has_water self),
        cutoff_line box (has_water self),
        ''cutoff distance = 10 angstrom'']
     @ seed_lines self"

definition freeenergy_lines :: "externals \<Rightarrow> somd \<Rightarrow> bool \<Rightarrow> int \<Rightarrow> time \<Rightarrow> temperature \<Rightarrow> string \<Rightarrow> pyfloat list \<Rightarrow> pyfloat \<Rightarrow> string list" where
  "freeenergy_lines X self box n time_step temp ensemble lambda_values lam =
     [''ncycles = '' @ fmt_d n,
      ''nmoves = 100'',
      ''energy frequency = 100'',
      ''save coordinates = True'',
      ''buffered coordinates frequency = 100'',
      ''timestep = '' @ fmt_2f X (magnitude (femtoseconds time_step)) @ '' femtosecond'',
      ''thermostat = True'',
      ''temperature = '' @ fmt_2f X (kelvin_magnitude temp) @ '' kelvin'']
     @ barostat_lines ensemble (has_water self) box
     @ [dielectric_line (has_water self),
        cutoff_line box (has_water self),
        ''cutoff distance = 10 angstrom'']
     @ seed_lines self
     @ [''lambda array = '' @ join '', '' (map (str_float X) lambda_values),
        ''lambda_val = '' @ str_float X lam]"

text \<open>
  \<open>_generate_config\<close>: the list is cleared, the box is looked up in the properties of the
  system the object holds, and the lines of the protocol's branch are added. A branch that
  raises does so before it adds a line. The warning given when there is no box has no
  effect on the result and is left out.
\<close>

definition generate_config :: "externals \<Rightarrow> somd \<Rightarrow> world \<Rightarrow> unit outcome \<times> somd" where
  "generate_config X self w =
     (let self0 = self\<lparr>config := []\<rparr>;
          has_box = (''space'' \<in> set (propertyKeys (heap w ! system self)))
      in case protocol self of
           Minimisation steps \<Rightarrow>
             (Return (), addToConfig (minimisation_lines self0 has_box steps) self0)
         | Equilibration run_time time_step temp constant restrained \<Rightarrow>
             (if \<not> constant then
                (Raise (IncompatibleError ''SOMD only supports constant temperature equilibration.''), self0)
              else if restrained then
                (Raise (IncompatibleError ''SOMD doesn't support backbone atom restraints.''), self0)
              else (case ncycles run_time time_step of
                      Raise e \<Rightarrow> (Raise e, self0)
                    | Return n \<Rightarrow>
                        (Return (), addToConfig (equilibration_lines X self0 has_box n time_step temp) self0)))
         | Production run_time time_step temp ensemble \<Rightarrow>
             (case ncycles run_time time_step of
                Raise e \<Rightarrow> (Raise e, self0)
              | Return n \<Rightarrow>
                  (Return (), addToConfig (production_lines X self0 has_box n time_step temp ensemble) self0))
         | FreeEnergy run_time time_step temp ensemble lambda_values lam \<Rightarrow>
             (case ncycles run_time time_step of
                Raise e \<Rightarrow> (Raise e, self0)
              | Return n \<Rightarrow>
                  (Return (), addToConfig
                     (freeenergy_lines X self0 has_box n time_step temp ensemble lambda_values lam) self0))
         | Custom lines \<Rightarrow> (Raise (IncompatibleError (''Unsupported protocol: '' @ [CHR 0x27] @ ''Custom'' @ [CHR 0x27])), self0)
         | OtherProtocol cls \<Rightarrow> (Raise (IncompatibleError (''Unsupported protocol: '' @ [CHR 0x27] @ cls @ [CHR 0x27])), self0))"

section \<open>\<open>_generate_args\<close>, \<open>writeConfig\<close>\<close>

text \<open>
  Modelled from the spec: the base class \<^verbatim>\<open>_process.Process\<close> is not among the
  sources. Its argument table is "an ordered mapping from flag to value (insertion order
  preserved)"; its config is "persisted verbatim", one line each.
\<close>

fun setArg :: "string \<Rightarrow> string \<Rightarrow> (string \<times> string) list \<Rightarrow> (string \<times> string) list" where
  "setArg k v [] = [(k, v)]"
| "setArg k v ((k', v') # kvs) = (if k' = k then (k, v) # kvs else (k', v') # setArg k v kvs)"

definition getArgStringList :: "somd \<Rightarrow> string list" where
  "getArgStringList self = concat (map (\<lambda>(k, v). [k, v]) (args self))"

definition getArgString :: "somd \<Rightarrow> string" where
  "getArgString self = join '' '' (getArgStringList self)"

definition writeConfig :: "string \<Rightarrow> somd \<Rightarrow> world \<Rightarrow> unit outcome \<times> world" where
  "writeConfig file self w = write_file file (concat (map (\<lambda>l. l @ [CHR 0x0A]) (config self))) w"

definition generate_args :: "somd \<Rightarrow> somd" where
  "generate_args self =
     (let a0 = [];
          a1 = setArg ''-c'' (name self @ ''.rst7'') a0;
          a2 = setArg ''-t'' (name self @ ''.prm7'') a1;
          a3 = (if is_FreeEnergy (protocol self) then setArg ''-m'' (name self @ ''.pert'') a2 else a2);
          a4 = setArg ''-C'' (name self @ ''.cfg'') a3;
          a5 = setArg ''-p'' (platform self) a4
      in self\<lparr>args := a5\<rparr>)"

section \<open>\<open>_setup\<close>, whole\<close>

definition setup_config :: "externals \<Rightarrow> somd \<Rightarrow> world \<Rightarrow> unit outcome \<times> somd" where
  "setup_config X self w =
     (case protocol self of
        Custom lines \<Rightarrow> (Return (), self\<lparr>config := lines\<rparr>)
      | Minimisation steps \<Rightarrow> generate_config X self w
      | Equilibration rt ts t c r \<Rightarrow> generate_config X self w
      | Production rt ts t e \<Rightarrow> generate_config X self w
      | FreeEnergy rt ts t e ls l \<Rightarrow> generate_config X self w
      | OtherProtocol cls \<Rightarrow> generate_config X self w)"

definition Somd_setup :: "externals \<Rightarrow> somd \<Rightarrow> world \<Rightarrow> string list outcome \<times> somd \<times> world" where
  "Somd_setup X self w =
     (case new_System (system self) w of (sys, w0) \<Rightarrow>
      (case setup_perturbable X sys self w0 of
         (Raise e, self1, w1) \<Rightarrow> (Raise e, self1, w1)
       | (Return u, self1, w1) \<Rightarrow>
      (case relabel_waters sys (getWaterMolecules (heap w1 ! sys)) w1 of
         (Raise e, w2) \<Rightarrow> (Raise e, self1, w2)
       | (Return u, w2) \<Rightarrow>
      (case write_serialised (AmberRst7 X (heap w2 ! sys) (property_map self1)) (rst_file self1)
              ''Failed to write system to 'RST7' format.'' w2 of
         (Raise e, w3) \<Rightarrow> (Raise e, self1, w3)
       | (Return u, w3) \<Rightarrow>
      (case write_serialised (AmberPrm X (heap w3 ! sys) (property_map self1)) (top_file self1)
              ''Failed to write system to 'PRM7' format.'' w3 of
         (Raise e, w4) \<Rightarrow> (Raise e, self1, w4)
       | (Return u, w4) \<Rightarrow>
      (case setup_config X self1 w4 of
         (Raise e, self2) \<Rightarrow> (Raise e, self2, w4)
       | (Return u, self2) \<Rightarrow>
      (case writeConfig (config_file self2) self2 w4 of
         (Raise e, w5) \<Rightarrow> (Raise e, self2, w5)
       | (Return u, w5) \<Rightarrow>
           (let self3 = generate_args self2 in (Return (input_files self3), self3, w5)))))))))"

section \<open>The constructor\<close>

definition platforms :: "(string \<times> string) list" where
  "platforms = [(''CPU'', ''CPU''), (''CUDA'', ''CUDA''), (''OPENCL'', ''OpenCL'')]"

text \<open>
  \<open>__init__\<close> after the base class's constructor has run: \<open>base\<close> is the object as
  that constructor leaves it. \<open>exe_arg\<close> is \<open>None\<close> when no executable was named. The
  platform is a string: the \<open>TypeError\<close> for any other type has no counterpart here.
\<close>

definition find_exe :: "externals \<Rightarrow> somd \<Rightarrow> string option \<Rightarrow> world \<Rightarrow> string outcome" where
  "find_exe X self exe_arg w =
     (case exe_arg of
        None \<Rightarrow>
          (let somd_exe = (if is_FreeEnergy (protocol self) then getBinDir X @ ''/somd-freenrg''
                           else getBinDir X @ ''/somd'')
           in if \<not> isfile w somd_exe
              then Raise (MissingSoftwareError
                     ([CHR 0x27] @ ''Cannot find SOMD executable in expected location: ''
                        @ [CHR 0x27] @ somd_exe @ [CHR 0x27]))
              else Return somd_exe)
      | Some e \<Rightarrow>
          (if isfile w e then Return e
           else Raise (IOError (''SOMD executable doesn't exist: '' @ [CHR 0x27] @ e @ [CHR 0x27]))))"

definition Somd_init :: "externals \<Rightarrow> somd \<Rightarrow> string \<Rightarrow> string option \<Rightarrow> world \<Rightarrow> unit outcome \<times> somd \<times> world" where
  "Somd_init X base platform_arg exe_arg w =
     (let self1 = base\<lparr>package_name := ''SOMD'', has_trajectory := True\<rparr>
      in case map_of platforms (upper (strip_spaces platform_arg)) of
           None \<Rightarrow> (Raise (ValueError ''Supported platforms are: dict_keys(['CPU', 'CUDA', 'OPENCL'])''), self1, w)
         | Some p \<Rightarrow>
             (let self2 = self1\<lparr>platform := p\<rparr>
              in case find_exe X self2 exe_arg w of
                   Raise e \<Rightarrow> (Raise e, self2, w)
                 | Return e \<Rightarrow>
                     (let self3 = self2\<lparr>exe := e\<rparr>;
                          self4 = self3\<lparr>rst_file := work_dir self3 @ ''/'' @ name self3 @ ''.rst7'',
                                         top_file := work_dir self3 @ ''/'' @ name self3 @ ''.prm7''\<rparr>;
                          self5 = self4\<lparr>config_file := work_dir self4 @ ''/'' @ name self4 @ ''.cfg''\<rparr>;
                          self6 = self5\<lparr>pert_file := work_dir self5 @ ''/'' @ name self5 @ ''.pert''\<rparr>;
                          self7 = self6\<lparr>gradient_file := work_dir self6 @ ''/gradients.dat'',
                                         gradients := []\<rparr>;
                          self8 = self7\<lparr>input_files := [config_file self7, rst_file self7, top_file self7]\<rparr>
                      in case Somd_setup X self8 w of
                           (Raise e, self9, w9) \<Rightarrow> (Raise e, self9, w9)
                         | (Return fs, self9, w9) \<Rightarrow> (Return (), self9, w9))))"

section \<open>\<open>start\<close> and \<open>_clear_output\<close>\<close>

definition remove_if_file :: "string \<Rightarrow> world \<Rightarrow> world" where
  "remove_if_file p w = (if isfile w p then remove_file p w else w)"

text \<open>
  \<open>_clear_output\<close>: the base class's method first, then the restart and trajectory files,
  then, for a free energy protocol only, the gradient and energy files.
\<close>

definition clear_output :: "externals \<Rightarrow> somd \<Rightarrow> world \<Rightarrow> somd \<times> world" where
  "clear_output X self w =
     (case base_clear_output X (self, w) of (self1, w1) \<Rightarrow>
        (let w2 = remove_if_file (work_dir self1 @ ''/sim_restart.s3'') w1;
             w3 = remove_if_file (work_dir self1 @ ''/SYSTEM.s3'') w2;
             w4 = remove_if_file (work_dir self1 @ ''/traj000000001.dcd'') w3
         in if is_FreeEnergy (protocol self1) then
              (let w5 = remove_if_file (work_dir self1 @ ''/gradients.dat'') w4;
                   w6 = remove_if_file (work_dir self1 @ ''/simfile.dat'') w5
               in (self1, w6))
            else (self1, w4)))"

text \<open>
  \<open>Sire.Base.Process.run\<close>: the child is recorded with its command line and its two
  stream files, and runs; the handle is its index.
\<close>

definition Process_run :: "string \<Rightarrow> string list \<Rightarrow> string \<Rightarrow> string \<Rightarrow> world \<Rightarrow> nat \<times> world" where
  "Process_run e as out err w =
     (length (spawned w),
      w\<lparr>spawned := spawned w @ [(e, as, out, err)],
        running := (running w)(length (spawned w) := True)\<rparr>)"

text \<open>
  The part of \<open>start\<close> after the output is cleared: from storing the current directory
  to returning \<open>self\<close>. No statement of it is inside a \<open>try\<close>.
\<close>

definition launch :: "somd \<Rightarrow> world \<Rightarrow> started outcome \<times> somd \<times> world" where
  "launch self w =
     (let dir = cwd w
      in case chdir (work_dir self) w of
           (Raise e, w1) \<Rightarrow> (Raise e, self, w1)
         | (Return u, w1) \<Rightarrow>
      (let as = getArgStringList self;
           cmd = exe self @ '' '' @ getArgString self
       in case write_file ''README.txt''
                 (''# SOMD was run with the following command:'' @ [CHR 0x0A] @ cmd @ [CHR 0x0A]) w1 of
            (Raise e, w2) \<Rightarrow> (Raise e, self, w2)
          | (Return u, w2) \<Rightarrow>
      (let self1 = self\<lparr>command := cmd\<rparr>;
           self2 = self1\<lparr>timer := Some (clock w2)\<rparr>
       in case Process_run (exe self2) as (name self2 @ ''.out'') (name self2 @ ''.out'') w2 of
            (h, w3) \<Rightarrow>
      (let self3 = self2\<lparr>process := Some h\<rparr>
       in case write_file (basename (stderr_file self3))
                 (''All output has been redirected to the stdout stream!'' @ [CHR 0x0A]) w3 of
            (Raise e, w4) \<Rightarrow> (Raise e, self3, w4)
          | (Return u, w4) \<Rightarrow>
      (case chdir dir w4 of
         (Raise e, w5) \<Rightarrow> (Raise e, self3, w5)
       | (Return u, w5) \<Rightarrow> (Return ReturnedSelf, self3, w5))))))"

definition isRunning :: "somd \<Rightarrow> world \<Rightarrow> bool" where
  "isRunning self w = (case process self of None \<Rightarrow> False | Some h \<Rightarrow> running w h)"

definition start :: "externals \<Rightarrow> somd \<Rightarrow> world \<Rightarrow> started outcome \<times> somd \<times> world" where
  "start X self w =
     (if is_queued self then (Return ReturnedNone, self, w)
      else if isRunning self w then (Return ReturnedNone, self, w)
      else (case clear_output X self w of (self1, w1) \<Rightarrow> launch self1 w1))"

section \<open>The accessors\<close>

definition getTrajectory :: "externals \<Rightarrow> block \<Rightarrow> somd \<Rightarrow> world \<Rightarrow> trajectory option outcome \<times> somd \<times> world" where
  "getTrajectory X block self w =
     (case (if block = BTrue then wait X (self, w)
            else if block = AUTO \<and> is_blocked self then wait X (self, w)
            else (self, w)) of
        (self1, w1) \<Rightarrow> (Return (Trajectory X self1 w1), self1, w1))"

definition getSystem :: "externals \<Rightarrow> block \<Rightarrow> somd \<Rightarrow> world \<Rightarrow> sire_system option outcome \<times> somd \<times> world" where
  "getSystem X block self w =
     (case getTrajectory X block self w of
        (Raise e, self1, w1) \<Rightarrow> (Raise e, self1, w1)
      | (Return traj, self1, w1) \<Rightarrow>
          (case traj of
             None \<Rightarrow> (Return None, self1, w1)
           | Some frames \<Rightarrow>
               (if frames = [] then (Return None, self1, w1)
                else (Return (Some (last frames)), self1, w1))))"

definition getCurrentSystem :: "externals \<Rightarrow> somd \<Rightarrow> world \<Rightarrow> sire_system option outcome \<times> somd \<times> world" where
  "getCurrentSystem X self w = getSystem X BFalse self w"

text \<open>The time step of a protocol that has one (\<open>getTimeStep\<close>).\<close>

fun getTimeStep :: "protocol \<Rightarrow> time option" where
  "getTimeStep (Equilibration rt ts t c r) = Some ts"
| "getTimeStep (Production rt ts t e) = Some ts"
| "getTimeStep (FreeEnergy rt ts t e ls l) = Some ts"
| "getTimeStep p = None"

text \<open>The run time of a protocol that has one (\<open>getRunTime\<close>).\<close>

fun getRunTime :: "protocol \<Rightarrow> time option" where
  "getRunTime (Equilibration rt ts t c r) = Some rt"
| "getRunTime (Production rt ts t e) = Some rt"
| "getRunTime (FreeEnergy rt ts t e ls l) = Some rt"
| "getRunTime p = None"

text \<open>The ensemble of a protocol that has one (\<open>getEnsemble\<close>).\<close>

fun getEnsemble :: "protocol \<Rightarrow> string option" where
  "getEnsemble (Production rt ts t e) = Some e"
| "getEnsemble (FreeEnergy rt ts t e ls l) = Some e"
| "getEnsemble p = None"

fun is_Minimisation :: "protocol \<Rightarrow> bool" where
  "is_Minimisation (Minimisation steps) = True"
| "is_Minimisation p = False"

definition getTime :: "externals \<Rightarrow> bool \<Rightarrow> block \<Rightarrow> somd \<Rightarrow> world \<Rightarrow> time reading outcome \<times> somd \<times> world" where
  "getTime X time_series block self w =
     (if is_Minimisation (protocol self) then (Return Absent, self, w)
      else (case getTrajectory X block self w of
              (Raise e, self1, w1) \<Rightarrow> (Raise e, self1, w1)
            | (Return None, self1, w1) \<Rightarrow>
                (Raise (AttributeError
                        ([CHR 0x27] @ ''NoneType' object has no attribute 'nFrames'' @ [CHR 0x27])), self1, w1)
            | (Return (Some frames), self1, w1) \<Rightarrow>
                (let num_frames = length frames
                 in if num_frames = 0 then (Return Absent, self1, w1)
                    else (case getTimeStep (protocol self1) of
                            None \<Rightarrow> (Return Absent, self1, w1)
                          | Some ts \<Rightarrow>
                              (let times = map (\<lambda>x. time_scale (int x) (time_scale 100 (nanoseconds ts)))
                                             [1 ..< num_frames + 1]
                               in if time_series then (Return (Series times), self1, w1)
                                  else (Return (Sample (last times)), self1, w1))))))"

definition getCurrentTime :: "externals \<Rightarrow> bool \<Rightarrow> somd \<Rightarrow> world \<Rightarrow> time reading outcome \<times> somd \<times> world" where
  "getCurrentTime X time_series self w = getTime X time_series BFalse self w"

text \<open>
  The tailing reader (the third-party \<^verbatim>\<open>pygtail\<close>): it yields the lines of the file
  from the offset kept for that file, or from the start when the file has become shorter
  than that offset, and keeps the new offset, the end of the file, once the iteration has
  run to the end. An iteration that is left by an exception keeps nothing.
\<close>

definition pygtail_offset :: "world \<Rightarrow> string \<Rightarrow> nat" where
  "pygtail_offset w p = (case offsets w (resolve w p) of None \<Rightarrow> 0 | Some n \<Rightarrow> n)"

definition Pygtail :: "string \<Rightarrow> world \<Rightarrow> string list" where
  "Pygtail p w =
     (case files w (resolve w p) of
        None \<Rightarrow> []
      | Some text \<Rightarrow>
          (if length text < pygtail_offset w p then split_lines text
           else split_lines (drop (pygtail_offset w p) text)))"

definition pygtail_done :: "string \<Rightarrow> world \<Rightarrow> world" where
  "pygtail_done p w =
     (case files w (resolve w p) of
        None \<Rightarrow> w
      | Some text \<Rightarrow> w\<lparr>offsets := (offsets w)(resolve w p \<mapsto> length text)\<rparr>)"

text \<open>
  The body of the loop of \<open>getGradient\<close>, over the lines the reader yields: a line that
  does not start with \<open>#\<close> gives its last whitespace-separated token, read as a float and
  appended.
\<close>

fun read_gradients :: "externals \<Rightarrow> string list \<Rightarrow> pyfloat list \<Rightarrow> unit outcome \<times> pyfloat list" where
  "read_gradients X [] gs = (Return (), gs)"
| "read_gradients X (line # lines) gs =
     (case line of
        [] \<Rightarrow> (Raise (IndexError ''string index out of range''), gs)
      | c # cs \<Rightarrow>
          (if c \<noteq> CHR ''#'' then
             (case split_ws (rstrip line) of
                [] \<Rightarrow> (Raise (IndexError ''list index out of range''), gs)
              | t # ts \<Rightarrow>
                  (case parse_float X (last (t # ts)) of
                     None \<Rightarrow> (Raise (ValueError (''could not convert string to float: ''
                                                   @ [CHR 0x27] @ last (t # ts) @ [CHR 0x27])), gs)
                   | Some g \<Rightarrow> read_gradients X lines (gs @ [g])))
           else read_gradients X lines gs))"

definition getGradient :: "externals \<Rightarrow> bool \<Rightarrow> block \<Rightarrow> somd \<Rightarrow> world \<Rightarrow> pyfloat reading outcome \<times> somd \<times> world" where
  "getGradient X time_series block self w =
     (if \<not> isfile w (gradient_file self) then (Return Absent, self, w)
      else (case read_gradients X (Pygtail (gradient_file self) w) (gradients self) of
              (Raise e, gs) \<Rightarrow> (Raise e, self\<lparr>gradients := gs\<rparr>, w)
            | (Return u, gs) \<Rightarrow>
                (let self1 = self\<lparr>gradients := gs\<rparr>;
                     w1 = pygtail_done (gradient_file self) w
                 in if length (gradients self1) = 0 then (Return Absent, self1, w1)
                    else if time_series then (Return (Series (gradients self1)), self1, w1)
                    else (Return (Sample (last (gradients self1))), self1, w1))))"

definition getCurrentGradient :: "externals \<Rightarrow> bool \<Rightarrow> somd \<Rightarrow> world \<Rightarrow> pyfloat reading outcome \<times> somd \<times> world" where
  "getCurrentGradient X time_series self w = getGradient X time_series BFalse self w"

section \<open>A concrete environment, system and process\<close>

text \<open>
  Instances on which the theorems below are run: an environment whose serialisers accept
  every system and whose trajectory reader raises as long as the trajectory file is not
  there, a solvated system with one perturbable molecule and one water in a
  periodic box, a world with the work directory \<open>/work\<close>, and a process object as the
  constructor leaves it.
\<close>

text \<open>
  The formatting of the example environment: \<open>"%.2f" % x\<close> is the exact value of the
  float rounded to two decimals, a tie going to the even digit; \<open>str(x)\<close> is given for the
  floats that one decimal digit writes exactly, which are the ones the examples format;
  \<open>float(s)\<close> is given for the strings the examples read.
\<close>

fun example_fmt_2f :: "pyfloat \<Rightarrow> string" where
  "example_fmt_2f (Finite q) =
     (let n = round_half_even (\<bar>q\<bar> * 100)
      in (if q < 0 then ''-'' else []) @ fmt_d (n div 100) @ ''.''
           @ fmt_d (n mod 100 div 10) @ fmt_d (n mod 10))"
| "example_fmt_2f PosInf = ''inf''"
| "example_fmt_2f NegInf = ''-inf''"
| "example_fmt_2f NaN = ''nan''"

fun example_str :: "pyfloat \<Rightarrow> string" where
  "example_str (Finite q) =
     (if q < 0 then ''-'' else []) @ fmt_d \<lfloor>\<bar>q\<bar>\<rfloor> @ ''.'' @ fmt_d (\<lfloor>\<bar>q\<bar> * 10\<rfloor> mod 10)"
| "example_str PosInf = ''inf''"
| "example_str NegInf = ''-inf''"
| "example_str NaN = ''nan''"

definition example_env :: externals where
  "example_env =
     \<lparr>fmt_2f = example_fmt_2f,
      str_float = example_str,
      parse_float = map_of [(''0.5'', Finite (1 / 2)), (''-1.25'', Finite (- (5 / 4))), (''2.0'', Finite 2)],
      pert_text = (\<lambda>m pm. ''version 1''),
      lambda0_molecule = (\<lambda>m pm. m\<lparr>is_perturbable := False\<rparr>),
      AmberRst7 = (\<lambda>s pm. Some ''coordinates''),
      AmberPrm = (\<lambda>s pm. Some ''topology''),
      getBinDir = ''/sire/bin'',
      Trajectory = (\<lambda>self w. if isfile w (work_dir self @ ''/traj000000001.dcd'') then Some [] else None),
      wait = (\<lambda>(self, w). (self, w\<lparr>running := (\<lambda>h. False)\<rparr>)),
      base_clear_output =
        (\<lambda>(self, w). (self, remove_if_file (stderr_file self) (remove_if_file (stdout_file self) w)))\<rparr>"


definition ligand :: molecule where
  "ligand = \<lparr>number = 1, res0_name = ''LIG'', is_water = False, is_perturbable = True\<rparr>"

definition water :: molecule where
  "water = \<lparr>number = 2, res0_name = ''HOH'', is_water = True, is_perturbable = False\<rparr>"

definition solvated :: sire_system where
  "solvated = \<lparr>molecules = [ligand, water], propertyKeys = [''space'']\<rparr>"

definition example_world :: world where
  "example_world =
     \<lparr>files = [''/work/gradients.dat'' \<mapsto> ''#lambda gradient\<newline>0.0 0.5\<newline>0.1 -1.25\<newline>''],
      is_dir = (\<lambda>p. p = ''/work'' \<or> p = ''/home''),
      writable = (\<lambda>p. True),
      cwd = ''/home'',
      heap = [solvated],
      offsets = Map.empty,
      running = (\<lambda>h. False),
      spawned = [],
      clock = 0\<rparr>"



definition example_somd :: "protocol \<Rightarrow> somd" where
  "example_somd p =
     \<lparr>system = 0,
      protocol = p,
      name = ''somd'',
      work_dir = ''/work'',
      seed = 0,
      is_seeded = False,
      property_map = [],
      has_water = True,
      is_blocked = True,
      is_queued = False,
      stdout_file = ''/work/somd.out'',
      stderr_file = ''/work/somd.err'',
      package_name = ''SOMD'',
      has_trajectory = True,
      platform = ''CPU'',
      exe = ''/sire/bin/somd'',
      rst_file = ''/work/somd.rst7'',
      top_file = ''/work/somd.prm7'',
      config_file = ''/work/somd.cfg'',
      pert_file = ''/work/somd.pert'',
      gradient_file = ''/work/gradients.dat'',
      gradients = [],
      input_files = [''/work/somd.cfg'', ''/work/somd.rst7'', ''/work/somd.prm7''],
      config = [],
      args = [(''-c'', ''somd.rst7''), (''-t'', ''somd.prm7''), (''-C'', ''somd.cfg''), (''-p'', ''CPU'')],
      process = None,
      command = [],
      timer = None\<rparr>"

definition free_energy :: protocol where
  "free_energy =
     FreeEnergy (Time (Finite 10) Picosecond) (Time (Finite 2) Femtosecond) (Kelvin (Finite 300)) ''NPT''
       [Finite 0, Finite (1 / 2), Finite 1] (Finite (1 / 2))"

text \<open>
  A time step of \<open>0.3\<close> femtoseconds and a run time of \<open>32.2\<close> picoseconds, as Python reads
  the two literals: the nearest doubles.
\<close>

definition short_step :: protocol where
  "short_step =
     Production (Time (Finite 30) Femtosecond) (Time (round_double (3 / 10)) Femtosecond)
       (Kelvin (Finite 300)) ''NPT''"

definition long_run :: protocol where
  "long_run =
     Production (Time (round_double (322 / 10)) Picosecond) (Time (Finite 2) Femtosecond)
       (Kelvin (Finite 300)) ''NPT''"

definition production :: protocol where
  "production =
     Production (Time (Finite 10) Picosecond) (Time (Finite 2) Femtosecond) (Kelvin (Finite 300)) ''NPT''"

section \<open>The non-blocking accessors\<close>

text \<open>
  Claim C10. In every state and for every \<open>time_series\<close> flag, each non-blocking accessor
  is its blocking counterpart called with \<open>block=False\<close>: \<open>getCurrentSystem()\<close> is
  \<open>getSystem(block=False)\<close>, \<open>getCurrentTime(time_series)\<close> is
  \<open>getTime(time_series, block=False)\<close>, and \<open>getCurrentGradient(time_series)\<close> is
  \<open>getGradient(time_series, block=False)\<close>: the same value, the same object and the same
  world afterwards.
\<close>

theorem current_accessors_do_not_block:
  "getCurrentSystem X self w = getSystem X BFalse self w \<and>
   getCurrentTime X time_series self w = getTime X time_series BFalse self w \<and>
   getCurrentGradient X time_series self w = getGradient X time_series BFalse self w"
  by (simp add: getCurrentSystem_def getCurrentTime_def getCurrentGradient_def)

section \<open>Starting a process that is queued or running\<close>

text \<open>
  Claim C5. When the process is queued, or has a child that runs, \<open>start()\<close> returns at
  once: it returns \<open>None\<close>, and the object (its state, its command) and the world (the
  files, the children spawned, the current directory) are what they were.
\<close>

theorem start_again_is_noop:
  assumes "is_queued self \<or> isRunning self w"
  shows "start X self w = (Return ReturnedNone, self, w)"
  using assms by (auto simp: start_def)

theorem start_again_is_noop_witness:
  "isRunning ((example_somd production)\<lparr>process := Some 0\<rparr>) (example_world\<lparr>running := (\<lambda>h. True)\<rparr>) \<and>
   start example_env ((example_somd production)\<lparr>process := Some 0\<rparr>) (example_world\<lparr>running := (\<lambda>h. True)\<rparr>)
     = (Return ReturnedNone, (example_somd production)\<lparr>process := Some 0\<rparr>,
        example_world\<lparr>running := (\<lambda>h. True)\<rparr>)"
proof -
  have r: "isRunning ((example_somd production)\<lparr>process := Some 0\<rparr>) (example_world\<lparr>running := (\<lambda>h. True)\<rparr>)"
    by (simp add: isRunning_def)
  then have "is_queued ((example_somd production)\<lparr>process := Some 0\<rparr>)
      \<or> isRunning ((example_somd production)\<lparr>process := Some 0\<rparr>) (example_world\<lparr>running := (\<lambda>h. True)\<rparr>)"
    by simp
  from start_again_is_noop [OF this, of example_env] r show ?thesis by simp
qed

section \<open>Reading an artifact that is not there\<close>

lemma getTrajectory_returns:
  "\<exists>t self' w'. getTrajectory X block self w = (Return t, self', w')"
  by (simp add: getTrajectory_def split: prod.splits)

lemma getSystem_returns:
  "\<exists>s self' w'. getSystem X block self w = (Return s, self', w')"
  using getTrajectory_returns [of X block self w]
  by (auto simp: getSystem_def split: option.splits)

lemma getGradient_without_file:
  "\<not> isfile w (gradient_file self) \<Longrightarrow>
     getGradient X time_series block self w = (Return Absent, self, w)"
  by (simp add: getGradient_def)

lemma getSystem_without_trajectory:
  "Trajectory X self w = None \<Longrightarrow> getSystem X BFalse self w = (Return None, self, w)"
  by (simp add: getSystem_def getTrajectory_def)

lemma getTime_without_trajectory:
  "Trajectory X self w = None \<Longrightarrow> \<not> is_Minimisation (protocol self) \<Longrightarrow>
     \<exists>msg. getTime X time_series BFalse self w = (Raise (AttributeError msg), self, w)"
  by (simp add: getTime_def getTrajectory_def)


section \<open>Reading the gradients twice\<close>



lemma resolve_pygtail_done [simp]: "resolve (pygtail_done p w) q = resolve w q"
  by (simp add: pygtail_done_def resolve_def split: option.splits)

lemma files_pygtail_done [simp]: "files (pygtail_done p w) = files w"
  by (simp add: pygtail_done_def split: option.splits)

lemma isfile_pygtail_done [simp]: "isfile (pygtail_done p w) q = isfile w q"
  by (simp add: isfile_def)








section \<open>The cycle count\<close>

lemma float_of_int_100: "float_of_int 100 = Finite 100"
  by code_simp

lemma ncycles_Return:
  "ncycles rt ts = Return n \<Longrightarrow>
     \<exists>q c. time_div rt ts = Return q \<and> truediv q (Finite 100) = Return (Finite c) \<and> n = \<lceil>c\<rceil>"
  by (auto simp: ncycles_def float_of_int_100 math_ceil_def split: outcome.splits pyfloat.splits)

lemma time_div_unrounded:
  assumes "magnitude rt = Finite m1" and "magnitude ts = Finite m2"
      and "unrounded (m1 * fs_per (unit rt))" and "unrounded (m2 * fs_per (unit ts))"
      and "unrounded (m1 * fs_per (unit rt) / (m2 * fs_per (unit ts)))"
      and "time_div rt ts = Return q"
  shows "q = Finite (m1 * fs_per (unit rt) / (m2 * fs_per (unit ts)))"
  using assms
  by (auto simp: time_div_def truediv_def femtoseconds_def fmul_def fdiv_def unrounded_def
           split: if_splits)

lemma truediv_100_unrounded:
  "unrounded (a / 100) \<Longrightarrow> truediv (Finite a) (Finite 100) = Return (Finite c) \<Longrightarrow> c = a / 100"
  by (auto simp: truediv_def fdiv_def unrounded_def)

lemma generate_config_timed:
  assumes "getRunTime (protocol self) = Some rt" "getTimeStep (protocol self) = Some ts"
      and "generate_config X self w = (Return u, self')"
  shows "\<exists>n rest. ncycles rt ts = Return n \<and> config self' = (''ncycles = '' @ fmt_d n) # rest \<and>
           filter (\<lambda>l. take 10 l = ''ncycles = '') rest = []"
proof (cases "protocol self")
  case (Equilibration rt' ts' temp c r)
  with assms show ?thesis
    by (auto simp: generate_config_def Let_def addToConfig_def equilibration_lines_def
          dielectric_line_def cutoff_line_def seed_lines_def
        split: if_splits outcome.splits)
next
  case (Production rt' ts' temp e)
  with assms show ?thesis
    by (auto simp: generate_config_def Let_def addToConfig_def production_lines_def
          barostat_lines_def dielectric_line_def cutoff_line_def seed_lines_def
        split: if_splits outcome.splits)
next
  case (FreeEnergy rt' ts' temp e ls l)
  with assms show ?thesis
    by (auto simp: generate_config_def Let_def addToConfig_def freeenergy_lines_def
          barostat_lines_def dielectric_line_def cutoff_line_def seed_lines_def
        split: if_splits outcome.splits)
qed (use assms in auto)

text \<open>
  Claim C2, as amended. For a protocol with a run time and a time step (Equilibration,
  Production, FreeEnergy), a config that \<open>_generate_config\<close> generates holds exactly one
  cycle-count line, its first, and the count is \<open>math.ceil\<close> of the float
  \<open>(run_time / time_step) / 100\<close>: the quotient of the two times is rounded to a double,
  its division by 100 is rounded to a double, and the ceiling of that double is taken. The
  count is \<open>ceil(run_time / (time_step * 100))\<close> of the exact quantities whenever the
  conversion of the two times to a common unit, their quotient and its hundredth are
  doubles as they stand, so that no step rounds. A run time of 10 picoseconds with a time
  step of 2 femtoseconds gives \<open>ncycles = 50\<close>.
\<close>

theorem cycle_count:
  assumes "getRunTime (protocol self) = Some run_time"
      and "getTimeStep (protocol self) = Some time_step"
      and "generate_config X self w = (Return u, self')"
  shows "\<exists>q c. time_div run_time time_step = Return q \<and>
           truediv q (Finite 100) = Return (Finite c) \<and>
           hd (config self') = ''ncycles = '' @ fmt_d \<lceil>c\<rceil> \<and>
           filter (\<lambda>l. take 10 l = ''ncycles = '') (config self') = [''ncycles = '' @ fmt_d \<lceil>c\<rceil>] \<and>
           (\<forall>m1 m2.
              magnitude run_time = Finite m1 \<and> magnitude time_step = Finite m2 \<and>
              unrounded (m1 * fs_per (unit run_time)) \<and>
              unrounded (m2 * fs_per (unit time_step)) \<and>
              unrounded (m1 * fs_per (unit run_time) / (m2 * fs_per (unit time_step))) \<and>
              unrounded (m1 * fs_per (unit run_time) / (m2 * fs_per (unit time_step)) / 100) \<longrightarrow>
              \<lceil>c\<rceil> = \<lceil>m1 * fs_per (unit run_time) / (m2 * fs_per (unit time_step) * 100)\<rceil>)"
proof -
  from generate_config_timed [OF assms] obtain n rest where
    n: "ncycles run_time time_step = Return n" and
    cfg: "config self' = (''ncycles = '' @ fmt_d n) # rest" and
    r: "filter (\<lambda>l. take 10 l = ''ncycles = '') rest = []" by blast
  from ncycles_Return [OF n] obtain q c where
    q: "time_div run_time time_step = Return q" and
    c: "truediv q (Finite 100) = Return (Finite c)" and
    nc: "n = \<lceil>c\<rceil>" by blast
  have exact: "\<lceil>c\<rceil> = \<lceil>m1 * fs_per (unit run_time) / (m2 * fs_per (unit time_step) * 100)\<rceil>"
    if h: "magnitude run_time = Finite m1 \<and> magnitude time_step = Finite m2 \<and>
           unrounded (m1 * fs_per (unit run_time)) \<and>
           unrounded (m2 * fs_per (unit time_step)) \<and>
           unrounded (m1 * fs_per (unit run_time) / (m2 * fs_per (unit time_step))) \<and>
           unrounded (m1 * fs_per (unit run_time) / (m2 * fs_per (unit time_step)) / 100)"
    for m1 m2
  proof -
    from h q have "q = Finite (m1 * fs_per (unit run_time) / (m2 * fs_per (unit time_step)))"
      by (intro time_div_unrounded [of run_time m1 time_step m2]) simp_all
    with c h have "c = m1 * fs_per (unit run_time) / (m2 * fs_per (unit time_step)) / 100"
      by (intro truediv_100_unrounded) simp_all
    then show ?thesis by simp
  qed
  from q c cfg r nc exact show ?thesis by auto
qed

lemma example_production_config:
  "fst (generate_config example_env (example_somd production) example_world) = Return ()"
  by code_simp

lemma example_time_div:
  "time_div (Time (Finite 10) Picosecond) (Time (Finite 2) Femtosecond) = Return (Finite 5000) \<and>
   truediv (Finite 5000) (Finite 100) = Return (Finite 50) \<and>
   unrounded (10 * fs_per Picosecond) \<and> unrounded (2 * fs_per Femtosecond) \<and>
   unrounded (10 * fs_per Picosecond / (2 * fs_per Femtosecond)) \<and>
   unrounded (10 * fs_per Picosecond / (2 * fs_per Femtosecond) / 100)"
  by code_simp

theorem cycle_count_witness:
  "filter (\<lambda>l. take 10 l = ''ncycles = '')
     (config (snd (generate_config example_env (example_somd production) example_world)))
   = [''ncycles = 50''] \<and>
   \<lceil>(10 * fs_per Picosecond) / (2 * fs_per Femtosecond * 100)\<rceil> = (50 :: int)"
proof -
  let ?g = "generate_config example_env (example_somd production) example_world"
  have 1: "getRunTime (protocol (example_somd production)) = Some (Time (Finite 10) Picosecond)"
    by (simp add: example_somd_def production_def)
  have 2: "getTimeStep (protocol (example_somd production)) = Some (Time (Finite 2) Femtosecond)"
    by (simp add: example_somd_def production_def)
  have 3: "?g = (Return (), snd ?g)"
    using example_production_config by (cases ?g) simp
  have 4: "fmt_d 50 = ''50''"
    by (simp add: fmt_d_def digits.simps digit_char_def)
  from cycle_count [OF 1 2 3] example_time_div 4 show ?thesis by auto
qed

text \<open>
  The claim as stated, the exact ceiling, fails where a float operation rounds. With a
  run time of 30 femtoseconds and a time step of \<open>0.3\<close> femtoseconds, the double that is
  a little below three tenths, the quotient is a little above 100 and rounds to 100: the
  config says \<open>ncycles = 1\<close> while the exact quotient of the two times by 100 is above 1,
  with ceiling 2. With a run time of \<open>32.2\<close> picoseconds and a time step of 2
  femtoseconds, the config says \<open>ncycles = 162\<close> while \<open>32.2\<close> picoseconds over 200
  femtoseconds is 161.
\<close>

theorem cycle_count_rounds_counterexample:
  "hd (config (snd (generate_config example_env (example_somd short_step) example_world)))
     = ''ncycles = 1'' \<and>
   round_double (3 / 10) = Finite (5404319552844595 / 18014398509481984) \<and>
   \<lceil>(30 :: rat) / (5404319552844595 / 18014398509481984 * 100)\<rceil> = 2 \<and>
   hd (config (snd (generate_config example_env (example_somd long_run) example_world)))
     = ''ncycles = 162'' \<and>
   \<lceil>(322 / 10 * 1000 :: rat) / (2 * 100)\<rceil> = 161"
  by code_simp

section \<open>The barostat\<close>

lemma barostat_in_production_lines:
  "(''barostat = True'' \<in> set (production_lines X self box n ts temp e) \<longleftrightarrow> e \<noteq> ''NVT'' \<and> has_water self \<and> box) \<and>
   (''pressure = 1 atm'' \<in> set (production_lines X self box n ts temp e) \<longleftrightarrow> e \<noteq> ''NVT'' \<and> has_water self \<and> box) \<and>
   (''barostat = False'' \<in> set (production_lines X self box n ts temp e) \<longleftrightarrow> \<not> (e \<noteq> ''NVT'' \<and> has_water self \<and> box))"
  by (simp add: production_lines_def barostat_lines_def dielectric_line_def cutoff_line_def
        seed_lines_def)

lemma barostat_in_freeenergy_lines:
  "(''barostat = True'' \<in> set (freeenergy_lines X self box n ts temp e ls l) \<longleftrightarrow> e \<noteq> ''NVT'' \<and> has_water self \<and> box) \<and>
   (''pressure = 1 atm'' \<in> set (freeenergy_lines X self box n ts temp e ls l) \<longleftrightarrow> e \<noteq> ''NVT'' \<and> has_water self \<and> box) \<and>
   (''barostat = False'' \<in> set (freeenergy_lines X self box n ts temp e ls l) \<longleftrightarrow> \<not> (e \<noteq> ''NVT'' \<and> has_water self \<and> box))"
  by (simp add: freeenergy_lines_def barostat_lines_def dielectric_line_def cutoff_line_def
        seed_lines_def)

text \<open>
  Claim C7. For a Production or FreeEnergy protocol, a config that \<open>_generate_config\<close>
  generates holds the line \<open>barostat = True\<close>, and with it the pressure line, exactly when
  the ensemble is not the constant-volume \<open>NVT\<close> (so it is the constant-pressure one),
  the system has water, and the system has a periodic box (the property \<open>space\<close>); in
  every other case, and only then, it holds the line \<open>barostat = False\<close>.
\<close>

theorem barostat_policy:
  assumes "getEnsemble (protocol self) = Some ensemble"
      and "generate_config X self w = (Return u, self')"
  shows "(''barostat = True'' \<in> set (config self') \<longleftrightarrow>
            ensemble \<noteq> ''NVT'' \<and> has_water self \<and> ''space'' \<in> set (propertyKeys (heap w ! system self))) \<and>
         (''pressure = 1 atm'' \<in> set (config self') \<longleftrightarrow>
            ensemble \<noteq> ''NVT'' \<and> has_water self \<and> ''space'' \<in> set (propertyKeys (heap w ! system self))) \<and>
         (''barostat = False'' \<in> set (config self') \<longleftrightarrow>
            \<not> (ensemble \<noteq> ''NVT'' \<and> has_water self \<and> ''space'' \<in> set (propertyKeys (heap w ! system self))))"
proof (cases "protocol self")
  case (Production rt ts temp e)
  let ?box = "''space'' \<in> set (propertyKeys (heap w ! system self))"
  from Production assms(1) have e: "e = ensemble" by simp
  from Production assms(2) obtain n where
    "config self' = production_lines X (self\<lparr>config := []\<rparr>) ?box n ts temp e"
    by (auto simp: generate_config_def Let_def addToConfig_def split: outcome.splits)
  with barostat_in_production_lines [of X "self\<lparr>config := []\<rparr>" ?box n ts temp e] e
  show ?thesis by simp
next
  case (FreeEnergy rt ts temp e ls l)
  let ?box = "''space'' \<in> set (propertyKeys (heap w ! system self))"
  from FreeEnergy assms(1) have e: "e = ensemble" by simp
  from FreeEnergy assms(2) obtain n where
    "config self' = freeenergy_lines X (self\<lparr>config := []\<rparr>) ?box n ts temp e ls l"
    by (auto simp: generate_config_def Let_def addToConfig_def split: outcome.splits)
  with barostat_in_freeenergy_lines [of X "self\<lparr>config := []\<rparr>" ?box n ts temp e ls l] e
  show ?thesis by simp
qed (use assms in auto)

lemma example_free_energy_config:
  "fst (generate_config example_env (example_somd free_energy) example_world) = Return ()"
  by code_simp

theorem barostat_policy_witness:
  "''barostat = True'' \<in> set (config (snd (generate_config example_env (example_somd free_energy) example_world))) \<and>
   ''pressure = 1 atm'' \<in> set (config (snd (generate_config example_env (example_somd free_energy) example_world))) \<and>
   ''barostat = False'' \<notin> set (config (snd (generate_config example_env (example_somd free_energy) example_world)))"
proof -
  let ?g = "generate_config example_env (example_somd free_energy) example_world"
  have 1: "getEnsemble (protocol (example_somd free_energy)) = Some ''NPT''"
    by (simp add: example_somd_def free_energy_def)
  have 2: "?g = (Return (), snd ?g)"
    using example_free_energy_config by (cases ?g) simp
  have 3: "''NPT'' \<noteq> ''NVT'' \<and> has_water (example_somd free_energy) \<and>
        ''space'' \<in> set (propertyKeys (heap example_world ! system (example_somd free_energy)))"
    by (simp add: example_somd_def example_world_def solvated_def)
  from barostat_policy [OF 1 2] 3 show ?thesis by simp
qed

section \<open>Clearing the output of an earlier run\<close>

lemma resolve_remove_if_file [simp]: "resolve (remove_if_file p w) q = resolve w q"
  by (simp add: remove_if_file_def remove_file_def resolve_def)

lemma cwd_remove_if_file [simp]: "cwd (remove_if_file p w) = cwd w"
  by (simp add: remove_if_file_def remove_file_def)

lemma isfile_remove_if_file:
  "isfile (remove_if_file p w) q \<longleftrightarrow> isfile w q \<and> resolve w q \<noteq> resolve w p"
  by (auto simp: remove_if_file_def remove_file_def isfile_def resolve_def)

lemma resolve_in_dir:
  "resolve w (d @ CHR ''/'' # a) = resolve w (d @ CHR ''/'' # b) \<longleftrightarrow> a = b"
  by (cases d) (auto simp: resolve_def)


text \<open>
  Claim C6, as amended. When the process is neither queued nor running, \<open>start()\<close> is the
  launch (change of directory, command log, spawn) in the world that \<open>_clear_output\<close>
  leaves, and in that world, for every protocol, the restart files \<open>sim_restart.s3\<close> and
  \<open>SYSTEM.s3\<close> and the trajectory file \<open>traj000000001.dcd\<close> of the work directory do not
  exist. The gradient file \<open>gradients.dat\<close> and the energy file \<open>simfile.dat\<close> do not exist
  there when the protocol is FreeEnergy; for any other protocol they are as the base
  class's method left them.
\<close>

theorem start_clears_output:
  assumes "\<not> is_queued self" and "\<not> isRunning self w"
      and "base_clear_output X (self, w) = (self1, wb)"
  shows "\<exists>w1. clear_output X self w = (self1, w1) \<and> start X self w = launch self1 w1 \<and>
           \<not> isfile w1 (work_dir self1 @ ''/sim_restart.s3'') \<and>
           \<not> isfile w1 (work_dir self1 @ ''/SYSTEM.s3'') \<and>
           \<not> isfile w1 (work_dir self1 @ ''/traj000000001.dcd'') \<and>
           (if is_FreeEnergy (protocol self1)
            then \<not> isfile w1 (work_dir self1 @ ''/gradients.dat'') \<and>
                 \<not> isfile w1 (work_dir self1 @ ''/simfile.dat'')
            else (isfile w1 (work_dir self1 @ ''/gradients.dat'') \<longleftrightarrow> isfile wb (work_dir self1 @ ''/gradients.dat'')) \<and>
                 (isfile w1 (work_dir self1 @ ''/simfile.dat'') \<longleftrightarrow> isfile wb (work_dir self1 @ ''/simfile.dat'')))"
  using assms
  by (simp add: start_def clear_output_def Let_def isfile_remove_if_file resolve_in_dir)

theorem start_clears_output_witness:
  "\<not> isfile (snd (clear_output example_env (example_somd free_energy) example_world)) ''/work/gradients.dat'' \<and>
   isfile example_world ''/work/gradients.dat''"
proof -
  have 1: "\<not> is_queued (example_somd free_energy)" by (simp add: example_somd_def)
  have 2: "\<not> isRunning (example_somd free_energy) example_world"
    by (simp add: example_somd_def isRunning_def)
  have 3: "base_clear_output example_env (example_somd free_energy, example_world)
      = (example_somd free_energy, snd (base_clear_output example_env (example_somd free_energy, example_world)))"
    by (simp add: example_env_def)
  have 4: "is_FreeEnergy (protocol (example_somd free_energy))"
    by (simp add: example_somd_def free_energy_def)
  have 5: "work_dir (example_somd free_energy) = ''/work''" by (simp add: example_somd_def)
  have 6: "isfile example_world ''/work/gradients.dat''"
    by (simp add: isfile_def resolve_def example_world_def)
  from start_clears_output [OF 1 2 3] 4 5 6 show ?thesis by auto
qed

text \<open>
  The claim as stated, for every protocol, fails: with a Production protocol, a
  \<open>gradients.dat\<close> in the work directory is still there when the engine is spawned and
  when \<open>start()\<close> returns.
\<close>

theorem gradient_file_kept_counterexample:
  "\<not> is_queued (example_somd production) \<and>
   \<not> isRunning (example_somd production) example_world \<and>
   isfile example_world ''/work/gradients.dat'' \<and>
   isfile (snd (clear_output example_env (example_somd production) example_world)) ''/work/gradients.dat'' \<and>
   fst (start example_env (example_somd production) example_world) = Return ReturnedSelf \<and>
   length (spawned (snd (snd (start example_env (example_somd production) example_world)))) = 1 \<and>
   isfile (snd (snd (start example_env (example_somd production) example_world))) ''/work/gradients.dat''"
  by code_simp


section \<open>The current directory across \<open>start\<close>\<close>











section \<open>What the steps of \<open>_setup\<close> leave alone\<close>

lemma modify_system_frame:
  "files (modify_system a f w) = files w \<and> writable (modify_system a f w) = writable w \<and>
   cwd (modify_system a f w) = cwd w \<and> length (heap (modify_system a f w)) = length (heap w) \<and>
   (n \<le> a \<longrightarrow> take n (heap (modify_system a f w)) = take n (heap w))"
  by (simp add: modify_system_def)

lemma resolve_modify_system [simp]: "resolve (modify_system a f w) p = resolve w p"
  by (simp add: modify_system_def resolve_def)

lemma write_file_frame:
  "write_file p t w = (r, w') \<Longrightarrow>
     heap w' = heap w \<and> writable w' = writable w \<and> cwd w' = cwd w"
  by (auto simp: write_file_def split: if_splits)


lemma write_serialised_frame:
  "write_serialised t p msg w = (r, w') \<Longrightarrow>
     heap w' = heap w \<and> writable w' = writable w \<and> cwd w' = cwd w"
  by (auto simp: write_serialised_def dest: write_file_frame split: option.splits prod.splits outcome.splits)


lemma setup_perturbable_frame:
  assumes "setup_perturbable X sys self w = (r, self', w')"
  shows "writable w' = writable w \<and> cwd w' = cwd w \<and> length (heap w') = length (heap w) \<and>
         (n \<le> sys \<longrightarrow> take n (heap w') = take n (heap w)) \<and>
         system self' = system self \<and> protocol self' = protocol self \<and>
         property_map self' = property_map self \<and> rst_file self' = rst_file self \<and>
         top_file self' = top_file self \<and> config_file self' = config_file self"
  using assms
  by (auto simp: setup_perturbable_def Let_def modify_system_frame
           dest!: write_file_frame split: if_splits list.splits prod.splits outcome.splits)

lemma relabel_waters_frame:
  "relabel_waters sys ws w = (r, w') \<Longrightarrow>
     files w' = files w \<and> writable w' = writable w \<and> cwd w' = cwd w \<and>
     length (heap w') = length (heap w) \<and> (n \<le> sys \<longrightarrow> take n (heap w') = take n (heap w))"
proof (induction ws arbitrary: w)
  case Nil
  then show ?case by simp
next
  case (Cons mol ws)
  show ?case
  proof (cases "sys_molecule (heap w ! sys) (number mol)")
    case None
    with Cons.prems show ?thesis by simp
  next
    case (Some m)
    let ?m1 = "rename_res0 ''WAT'' m"
    let ?w2 = "modify_system sys (sys_add ?m1) (modify_system sys (sys_remove (number ?m1)) w)"
    from Some Cons.prems have "relabel_waters sys ws ?w2 = (r, w')" by (simp add: Let_def)
    from Cons.IH [OF this] show ?thesis by (simp add: modify_system_frame)
  qed
qed

lemma generate_config_frame:
  "generate_config X self w = (r, self') \<Longrightarrow> system self' = system self \<and> config_file self' = config_file self \<and> input_files self' = input_files self"
  by (auto simp: generate_config_def Let_def addToConfig_def
           split: protocol.splits if_splits outcome.splits)

lemma setup_config_frame:
  "setup_config X self w = (r, self') \<Longrightarrow> system self' = system self \<and> config_file self' = config_file self \<and> input_files self' = input_files self"
  by (auto simp: setup_config_def dest: generate_config_frame split: protocol.splits)

lemma writeConfig_frame:
  "writeConfig p self w = (r, w') \<Longrightarrow> heap w' = heap w"
  by (auto simp: writeConfig_def dest: write_file_frame)

lemma generate_args_frame [simp]:
  "system (generate_args self) = system self" "config (generate_args self) = config self"
  "input_files (generate_args self) = input_files self"
  by (simp_all add: generate_args_def Let_def)

lemma Somd_setup_frame:
  assumes "Somd_setup X self w = (r, self', w')"
  shows "take (length (heap w)) (heap w') = heap w \<and> system self' = system self"
proof -
  let ?n = "length (heap w)"
  obtain sys w0 where new: "new_System (system self) w = (sys, w0)"
    by (cases "new_System (system self) w")
  then have sys: "sys = ?n" and h0: "take ?n (heap w0) = heap w"
    by (auto simp: new_System_def)
  obtain r1 self1 w1 where p: "setup_perturbable X sys self w0 = (r1, self1, w1)"
    by (cases "setup_perturbable X sys self w0")
  from setup_perturbable_frame [OF p, of ?n] sys h0
  have h1: "take ?n (heap w1) = heap w" and s1: "system self1 = system self" by simp_all
  obtain r2 w2 where rw: "relabel_waters sys (getWaterMolecules (heap w1 ! sys)) w1 = (r2, w2)"
    by (cases "relabel_waters sys (getWaterMolecules (heap w1 ! sys)) w1")
  from relabel_waters_frame [OF rw, of ?n] sys h1 have h2: "take ?n (heap w2) = heap w" by simp
  obtain r3 w3 where rst: "write_serialised (AmberRst7 X (heap w2 ! sys) (property_map self1)) (rst_file self1)
      ''Failed to write system to 'RST7' format.'' w2 = (r3, w3)"
    by (cases "write_serialised (AmberRst7 X (heap w2 ! sys) (property_map self1)) (rst_file self1)
      ''Failed to write system to 'RST7' format.'' w2")
  from write_serialised_frame [OF rst] h2 have h3: "take ?n (heap w3) = heap w" by simp
  obtain r4 w4 where prm: "write_serialised (AmberPrm X (heap w3 ! sys) (property_map self1)) (top_file self1)
      ''Failed to write system to 'PRM7' format.'' w3 = (r4, w4)"
    by (cases "write_serialised (AmberPrm X (heap w3 ! sys) (property_map self1)) (top_file self1)
      ''Failed to write system to 'PRM7' format.'' w3")
  from write_serialised_frame [OF prm] h3 have h4: "take ?n (heap w4) = heap w" by simp
  obtain r5 self2 where cfg: "setup_config X self1 w4 = (r5, self2)"
    by (cases "setup_config X self1 w4")
  from setup_config_frame [OF cfg] s1 have s2: "system self2 = system self" by simp
  obtain r6 w5 where wc: "writeConfig (config_file self2) self2 w4 = (r6, w5)"
    by (cases "writeConfig (config_file self2) self2 w4")
  from writeConfig_frame [OF wc] h4 have h5: "take ?n (heap w5) = heap w" by simp
  from assms new p rw rst prm cfg wc h0 h1 h2 h3 h4 h5 s1 s2 show ?thesis
    by (auto simp: Somd_setup_def Let_def split: outcome.splits)
qed


section \<open>The caller's system\<close>

lemma Somd_init_frame:
  assumes "Somd_init X base platform_arg exe_arg w = (r, self', w')"
  shows "take (length (heap w)) (heap w') = heap w \<and> system self' = system base"
proof (cases "map_of platforms (upper (strip_spaces platform_arg))")
  case None
  with assms show ?thesis by (auto simp: Somd_init_def Let_def)
next
  case (Some p)
  let ?self2 = "base\<lparr>package_name := ''SOMD'', has_trajectory := True, platform := p\<rparr>"
  show ?thesis
  proof (cases "find_exe X ?self2 exe_arg w")
    case (Raise e)
    with Some assms show ?thesis by (auto simp: Somd_init_def Let_def)
  next
    case (Return e)
    let ?self3 = "?self2\<lparr>exe := e\<rparr>"
    let ?self4 = "?self3\<lparr>rst_file := work_dir ?self3 @ ''/'' @ name ?self3 @ ''.rst7'',
                           top_file := work_dir ?self3 @ ''/'' @ name ?self3 @ ''.prm7''\<rparr>"
    let ?self5 = "?self4\<lparr>config_file := work_dir ?self4 @ ''/'' @ name ?self4 @ ''.cfg''\<rparr>"
    let ?self6 = "?self5\<lparr>pert_file := work_dir ?self5 @ ''/'' @ name ?self5 @ ''.pert''\<rparr>"
    let ?self7 = "?self6\<lparr>gradient_file := work_dir ?self6 @ ''/gradients.dat'', gradients := []\<rparr>"
    let ?self8 = "?self7\<lparr>input_files := [config_file ?self7, rst_file ?self7, top_file ?self7]\<rparr>"
    obtain r9 self9 w9 where st: "Somd_setup X ?self8 w = (r9, self9, w9)"
      by (cases "Somd_setup X ?self8 w")
    with Return Some assms have "self' = self9" "w' = w9"
      by (auto simp: Somd_init_def Let_def split: outcome.splits)
    with Somd_setup_frame [OF st] show ?thesis by simp
  qed
qed

text \<open>
  Claim C9. \<open>_setup\<close>, and the constructor that calls it, change no system object that
  existed before the call, whatever the system, the protocol and the outcome: every
  object on the heap is afterwards what it was, among them the system the object holds
  and the caller's, and the object still refers to the same system. The substitution of
  the perturbable molecule and the renaming of the waters to \<open>WAT\<close> happen in a copy made
  at a fresh address.
\<close>

theorem setup_keeps_original:
  "(Somd_setup X self w = (r, self', w') \<longrightarrow>
      take (length (heap w)) (heap w') = heap w \<and> system self' = system self) \<and>
   (Somd_init X base platform_arg exe_arg w = (r0, self0, w0) \<longrightarrow>
      take (length (heap w)) (heap w0) = heap w \<and> system self0 = system base)"
  using Somd_setup_frame [of X self w r self' w']
        Somd_init_frame [of X base platform_arg exe_arg w r0 self0 w0]
  by blast

lemma example_setup_copy:
  "map res0_name (molecules (heap (snd (snd (Somd_setup example_env (example_somd free_energy) example_world))) ! 1))
     = [''LIG'', ''WAT'']"
  by code_simp

theorem setup_keeps_original_witness:
  "take (length (heap example_world))
     (heap (snd (snd (Somd_setup example_env (example_somd free_energy) example_world)))) = [solvated] \<and>
   map res0_name (molecules solvated) = [''LIG'', ''HOH''] \<and>
   map res0_name (molecules (heap (snd (snd (Somd_setup example_env (example_somd free_energy) example_world))) ! 1))
     = [''LIG'', ''WAT'']"
proof -
  let ?s = "Somd_setup example_env (example_somd free_energy) example_world"
  have 1: "?s = (fst ?s, fst (snd ?s), snd (snd ?s))" by simp
  have 2: "heap example_world = [solvated]" by (simp add: example_world_def)
  have 3: "map res0_name (molecules solvated) = [''LIG'', ''HOH'']"
    by (simp add: solvated_def ligand_def water_def)
  from setup_keeps_original [of example_env "example_somd free_energy" example_world
        "fst ?s" "fst (snd ?s)" "snd (snd ?s)"] 1
  have "take (length (heap example_world)) (heap (snd (snd ?s))) = heap example_world" by blast
  with 2 3 example_setup_copy show ?thesis by simp
qed

section \<open>Free energy setup\<close>

















end
